theory Spec2Isabelle
  imports Complex_Main "HOL-Library.Sublist"
begin

section \<open>Emergence pattern detection: a shallow embedding\<close>

text \<open>
  The development follows \<^verbatim>\<open>src/emergence_detector.py\<close> (class
  \<^verbatim>\<open>EmergencePatternDetector\<close>) and \<^verbatim>\<open>src/tool_integrator.py\<close> (class
  \<^verbatim>\<open>IntegratedAnalyzer\<close>).

  Conventions of the embedding:
  \<^item> Python \<^verbatim>\<open>str\<close> is \<open>string\<close>; the characters are read as code points below 128
    (ASCII text), so \<^verbatim>\<open>lower()\<close> maps \<open>A..Z\<close> to \<open>a..z\<close> and the white space of
    \<^verbatim>\<open>split()\<close> and \<^verbatim>\<open>strip()\<close> is the ASCII white space of \<^verbatim>\<open>str.isspace\<close>.
  \<^item> Python \<^verbatim>\<open>float\<close> is \<open>real\<close>: the arithmetic is exact, rounding is not modelled.
  \<^item> A dictionary with fixed keys is a record; a key that two dictionaries share gets a
    prefix in one of them (\<open>m_coherence\<close> for key \<^verbatim>\<open>coherence\<close> of
    \<^verbatim>\<open>measurements\<close>).
  \<^item> The detector object is a record of its attributes; a method takes the object and
    returns the updated one together with its result.
  \<^item> \<^verbatim>\<open>print\<close> calls are left out: they change nothing the methods return or store.
\<close>

subsection \<open>Strings\<close>

definition is_space :: "char \<Rightarrow> bool" where
  "is_space c =
     (let n = (of_char c :: nat)
      in n = 32 \<or> (9 \<le> n \<and> n \<le> 13) \<or> (28 \<le> n \<and> n \<le> 31))"

definition lower_char :: "char \<Rightarrow> char" where
  "lower_char c =
     (let n = (of_char c :: nat) in if 65 \<le> n \<and> n \<le> 90 then char_of (n + 32) else c)"

text \<open>\<^verbatim>\<open>s.lower()\<close>\<close>

definition lower :: "string \<Rightarrow> string" where
  "lower s = map lower_char s"

text \<open>
  \<^verbatim>\<open>s.split()\<close>: the maximal runs of characters that are not white space; no empty
  string in the result. \<open>split_from cur s\<close> scans \<open>s\<close> with the word \<open>cur\<close> under way.
\<close>

fun split_from :: "string \<Rightarrow> string \<Rightarrow> string list" where
  "split_from cur [] = (if cur = [] then [] else [cur])"
| "split_from cur (c # cs) =
     (if is_space c then (if cur = [] then split_from [] cs else cur # split_from [] cs)
      else split_from (cur @ [c]) cs)"

definition split_ws :: "string \<Rightarrow> string list" where
  "split_ws s = split_from [] s"

text \<open>
  \<^verbatim>\<open>s.split(sep)\<close> for a separator of one character: every occurrence separates, empty
  strings are kept, and the empty string gives one empty unit.
\<close>

fun split_sep_from :: "char \<Rightarrow> string \<Rightarrow> string \<Rightarrow> string list" where
  "split_sep_from sep cur [] = [cur]"
| "split_sep_from sep cur (c # cs) =
     (if c = sep then cur # split_sep_from sep [] cs else split_sep_from sep (cur @ [c]) cs)"

definition split_sep :: "char \<Rightarrow> string \<Rightarrow> string list" where
  "split_sep sep s = split_sep_from sep [] s"

text \<open>\<^verbatim>\<open>s.strip()\<close>\<close>

definition strip :: "string \<Rightarrow> string" where
  "strip s = dropWhile is_space (rev (dropWhile is_space (rev s)))"

text \<open>\<^verbatim>\<open>w in s\<close> for strings: \<open>w\<close> occurs in \<open>s\<close> as a contiguous run.\<close>

fun str_in :: "string \<Rightarrow> string \<Rightarrow> bool" where
  "str_in w [] = (w = [])"
| "str_in w (c # cs) = (prefix w (c # cs) \<or> str_in w cs)"

text \<open>\<^verbatim>\<open>any(word in s for word in words)\<close>\<close>

definition any_in :: "string list \<Rightarrow> string \<Rightarrow> bool" where
  "any_in words s = list_ex (\<lambda>word. str_in word s) words"

text \<open>\<^verbatim>\<open>set(s.lower().split())\<close>, the tokens of both analyses.\<close>

definition tokens :: "string \<Rightarrow> string set" where
  "tokens s = set (split_ws (lower s))"

subsection \<open>The detector and its measurements\<close>

record measurement_criteria =
  crit_boundary_transformation :: real
  crit_coherence_delta :: real
  crit_resonance_threshold :: real
  crit_phase_transition_indicator :: real

record boundary_metrics =
  score :: real
  flux :: real
  boundary_type :: string
  tokens_added :: "nat option"
  tokens_total :: "nat option"

record coherence_metrics =
  coherence :: real
  delta :: real
  landscape_stability :: string

record resonance_metrics =
  strength :: real
  frequency :: real
  resonance_type :: string
  variance :: "real option"

record phase_metrics =
  order_parameter :: real
  critical_point :: real
  distance_to_critical :: real
  near_critical :: bool
  phase :: string

record measurements =
  m_boundary :: boundary_metrics
  m_coherence :: coherence_metrics
  m_resonance :: resonance_metrics
  m_phase :: phase_metrics

record emergence_indicators =
  boundary_transformation :: bool
  coherence_shift :: bool
  resonance_detected :: bool
  phase_transition :: bool

text \<open>A time stamp is kept as its ISO text (\<^verbatim>\<open>timestamp.isoformat()\<close>).\<close>

type_synonym iso_timestamp = string

record analysis_report =
  timestamp :: iso_timestamp
  conversation_turn :: int
  measurements :: measurements
  emergence_indicators :: emergence_indicators
  emergence_pattern_detected :: bool
  pattern_signature :: string
  contains_4577_marker :: bool

record event_measurements =
  ev_boundary :: real
  ev_coherence :: real
  ev_resonance :: real
  ev_order_parameter :: real

record emergence_event =
  ev_timestamp :: iso_timestamp
  ev_turn :: int
  ev_pattern :: string
  ev_measurements :: event_measurements

record detector =
  pattern_observations :: "analysis_report list"
  resonance_events :: "emergence_event list"
  phase_transitions :: "unit list"
  measurement_criteria :: measurement_criteria
  pattern_signatures :: "(string \<times> string) list"

text \<open>\<^verbatim>\<open>EmergencePatternDetector.__init__\<close>\<close>

definition init_detector :: detector where
  "init_detector =
     \<lparr>pattern_observations = [],
      resonance_events = [],
      phase_transitions = [],
      measurement_criteria =
        \<lparr>crit_boundary_transformation = 0.7,
         crit_coherence_delta = 0.15,
         crit_resonance_threshold = 0.8,
         crit_phase_transition_indicator = 1.75\<rparr>,
      pattern_signatures =
        [(''AAFC'', ''Abstract-Abstract-Future-Conceptual''),
         (''CCDR'', ''Concrete-Concrete-Dynamic-Relational''),
         (''ABFC'', ''Abstract-Balanced-Future-Conceptual'')]\<rparr>"

text \<open>\<^verbatim>\<open>_measure_boundary_transformation\<close>\<close>

definition measure_boundary_transformation :: "string \<Rightarrow> string \<Rightarrow> boundary_metrics" where
  "measure_boundary_transformation prompt response =
     (let prompt_tokens = tokens prompt;
          response_tokens = tokens response;
          new_information = card (response_tokens - prompt_tokens);
          total_information = card response_tokens
      in if total_information = 0
         then \<lparr>score = 0, flux = 0, boundary_type = ''null'',
               tokens_added = None, tokens_total = None\<rparr>
         else
           (let fl = real new_information / real total_information;
                bt = (if fl < 0.3 then ''continuous''
                      else if fl < 0.7 then ''transitional''
                      else ''transformational'')
            in \<lparr>score = fl, flux = real new_information, boundary_type = bt,
                 tokens_added = Some new_information,
                 tokens_total = Some total_information\<rparr>))"

text \<open>
  \<^verbatim>\<open>_map_coherence_landscape\<close>. It reads the last stored observation of the detector.
\<close>

definition map_coherence_landscape :: "detector \<Rightarrow> string \<Rightarrow> string \<Rightarrow> coherence_metrics" where
  "map_coherence_landscape d prompt response =
     (let prompt_concepts = tokens prompt;
          response_concepts = tokens response;
          coh = (if prompt_concepts = {} then 0.5
                 else real (card (prompt_concepts \<inter> response_concepts)) /
                      real (card prompt_concepts));
          dl = (if pattern_observations d \<noteq> []
                then \<bar>coh - coherence (m_coherence (measurements (last (pattern_observations d))))\<bar>
                else 0)
      in \<lparr>coherence = coh, delta = dl,
           landscape_stability = (if dl < 0.1 then ''stable'' else ''shifting'')\<rparr>)"

text \<open>
  \<^verbatim>\<open>np.mean\<close> and \<^verbatim>\<open>np.std\<close> (the population standard deviation) of a list that
  is not empty; \<^verbatim>\<open>_detect_resonance_patterns\<close> calls them on such lists only.
\<close>

definition np_mean :: "real list \<Rightarrow> real" where
  "np_mean xs = sum_list xs / real (length xs)"

definition np_std :: "real list \<Rightarrow> real" where
  "np_std xs = sqrt (np_mean (map (\<lambda>x. \<bar>x - np_mean xs\<bar>\<^sup>2) xs))"

text \<open>
  \<^verbatim>\<open>_detect_resonance_patterns\<close>. \<open>resonance_none\<close> is the dictionary of its two early
  returns.
\<close>

definition resonance_none :: resonance_metrics where
  "resonance_none =
     \<lparr>strength = 0, frequency = 0, resonance_type = ''none'', variance = None\<rparr>"

text \<open>
  The word counts of the usable sentences:
  \<^verbatim>\<open>[len(s.split()) for s in sentences if s.strip()]\<close>.
\<close>

definition sentence_lengths :: "string list \<Rightarrow> nat list" where
  "sentence_lengths sentences =
     map (\<lambda>s. length (split_ws s)) (filter (\<lambda>s. strip s \<noteq> []) sentences)"

definition detect_resonance_patterns :: "string \<Rightarrow> resonance_metrics" where
  "detect_resonance_patterns response =
     (let sentences = split_sep CHR ''.'' response
      in if length sentences < 2 then resonance_none
         else
           (let lengths = sentence_lengths sentences
            in if lengths = [] then resonance_none
               else
                 (let mean_length = np_mean (map real lengths);
                      std_length = np_std (map real lengths);
                      resonance_strength =
                        (if mean_length > 0 then 1 / (1 + std_length / mean_length) else 0);
                      rt = (if resonance_strength > 0.8 then ''harmonic''
                            else if resonance_strength > 0.5 then ''partial''
                            else ''chaotic'')
                  in \<lparr>strength = resonance_strength, frequency = mean_length,
                       resonance_type = rt, variance = Some std_length\<rparr>)))"

text \<open>\<^verbatim>\<open>_analyze_phase_space\<close>\<close>

definition analyze_phase_space :: "detector \<Rightarrow> real \<Rightarrow> real \<Rightarrow> phase_metrics" where
  "analyze_phase_space d boundary_score coh =
     (let op = boundary_score * coh * 2.5;
          cp = crit_phase_transition_indicator (measurement_criteria d);
          dist = \<bar>op - cp\<bar>
      in \<lparr>order_parameter = op, critical_point = cp, distance_to_critical = dist,
           near_critical = (dist < 0.2),
           phase = (if op > cp then ''emergent'' else ''baseline'')\<rparr>)"

text \<open>
  \<^verbatim>\<open>_generate_pattern_signature\<close>: the two features, joined to a code of two letters,
  and the table that maps the code to a signature.
\<close>

definition signature_code :: "string \<Rightarrow> string" where
  "signature_code response =
     (let features = [];
          features = features @
            [if any_in [''abstract'', ''concept'', ''theory''] (lower response)
             then CHR ''A'' else CHR ''C''];
          features = features @
            [if any_in [''will'', ''future'', ''would''] (lower response)
             then CHR ''F'' else CHR ''P'']
      in features)"

definition map_signature :: "string \<Rightarrow> string" where
  "map_signature signature =
     (if signature \<in> set [''AF'', ''AA''] then ''AAFC''
      else if signature \<in> set [''CF'', ''CP''] then ''CCDR''
      else ''ABFC'')"

definition generate_pattern_signature :: "string \<Rightarrow> string" where
  "generate_pattern_signature response = map_signature (signature_code response)"

text \<open>\<^verbatim>\<open>_log_emergence_event\<close>: the event of an analysis, appended to the event log.\<close>

definition event_of :: "analysis_report \<Rightarrow> emergence_event" where
  "event_of analysis =
     \<lparr>ev_timestamp = timestamp analysis,
      ev_turn = conversation_turn analysis,
      ev_pattern = pattern_signature analysis,
      ev_measurements =
        \<lparr>ev_boundary = score (m_boundary (measurements analysis)),
         ev_coherence = coherence (m_coherence (measurements analysis)),
         ev_resonance = strength (m_resonance (measurements analysis)),
         ev_order_parameter = order_parameter (m_phase (measurements analysis))\<rparr>\<rparr>"

definition log_emergence_event :: "detector \<Rightarrow> analysis_report \<Rightarrow> detector" where
  "log_emergence_event d analysis =
     d\<lparr>resonance_events := resonance_events d @ [event_of analysis]\<rparr>"

text \<open>
  \<^verbatim>\<open>sum(emergence_indicators.values())\<close>: a true indicator counts 1, a false one 0.
\<close>

definition sum_indicators :: "emergence_indicators \<Rightarrow> nat" where
  "sum_indicators ind =
     sum_list (map of_bool
       [boundary_transformation ind, coherence_shift ind,
        resonance_detected ind, phase_transition ind])"

text \<open>
  \<^verbatim>\<open>analyze_emergence_patterns\<close>. \<open>now\<close> is what \<^verbatim>\<open>datetime.now()\<close> returns at the
  call; it is read when the caller gives no time stamp.
\<close>

definition analyze_emergence_patterns ::
  "detector \<Rightarrow> iso_timestamp \<Rightarrow> string \<Rightarrow> string \<Rightarrow> int \<Rightarrow> iso_timestamp option \<Rightarrow>
   detector \<times> analysis_report" where
  "analyze_emergence_patterns d now prompt response turn ts_opt =
     (let ts = (case ts_opt of Some t \<Rightarrow> t | None \<Rightarrow> now);
          boundary_m = measure_boundary_transformation prompt response;
          coherence_m = map_coherence_landscape d prompt response;
          resonance_m = detect_resonance_patterns response;
          phase_m = analyze_phase_space d (score boundary_m) (coherence coherence_m);
          indicators =
            \<lparr>boundary_transformation =
               (score boundary_m > crit_boundary_transformation (measurement_criteria d)),
             coherence_shift =
               (delta coherence_m > crit_coherence_delta (measurement_criteria d)),
             resonance_detected =
               (strength resonance_m > crit_resonance_threshold (measurement_criteria d)),
             phase_transition = near_critical phase_m\<rparr>;
          emergence_detected = (sum_indicators indicators \<ge> 3);
          analysis_report =
            \<lparr>timestamp = ts,
             conversation_turn = turn,
             measurements =
               \<lparr>m_boundary = boundary_m, m_coherence = coherence_m,
                m_resonance = resonance_m, m_phase = phase_m\<rparr>,
             emergence_indicators = indicators,
             emergence_pattern_detected = emergence_detected,
             pattern_signature = generate_pattern_signature response,
             contains_4577_marker = str_in ''<4577>'' response\<rparr>;
          d1 = d\<lparr>pattern_observations := pattern_observations d @ [analysis_report]\<rparr>;
          d2 = (if emergence_detected then log_emergence_event d1 analysis_report else d1)
      in (d2, analysis_report))"

text \<open>
  A sequence of calls on one detector, as the loop of \<^verbatim>\<open>test_emergence_patterns.py\<close>
  makes them. Each call comes with the clock's reading at that call.
\<close>

record turn_input =
  in_now :: iso_timestamp
  in_prompt :: string
  in_response :: string
  in_turn :: int
  in_timestamp :: "iso_timestamp option"

definition analyze_turn :: "detector \<Rightarrow> turn_input \<Rightarrow> detector \<times> analysis_report" where
  "analyze_turn d x =
     analyze_emergence_patterns d (in_now x) (in_prompt x) (in_response x) (in_turn x)
       (in_timestamp x)"

fun analyze_all :: "detector \<Rightarrow> turn_input list \<Rightarrow> detector" where
  "analyze_all d [] = d"
| "analyze_all d (x # xs) = analyze_all (fst (analyze_turn d x)) xs"

subsection \<open>The research report\<close>

record report_metadata =
  framework :: string
  version :: string
  author :: string
  methodology :: string

record report_summary =
  total_observations :: nat
  emergence_events :: nat
  emergence_rate :: real
  pattern_distribution :: "string \<rightharpoonup> nat"
  markers_4577 :: nat

text \<open>
  A finding is a sentence around a number; the number is kept, its formatting
  (\<^verbatim>\<open>:.3f\<close>) is not modelled.
\<close>

datatype finding =
  AverageBoundary real
  | NearCriticalTransitions nat
  | InsufficientData

text \<open>
  The report is a dictionary of one of two shapes: the key \<^verbatim>\<open>status\<close> alone, or the
  keys \<^verbatim>\<open>metadata\<close>, \<^verbatim>\<open>summary\<close>, \<^verbatim>\<open>key_findings\<close> and \<^verbatim>\<open>raw_events\<close>.
\<close>

datatype research_report =
  StatusReport string
  | FullReport report_metadata report_summary "finding list" "emergence_event list"

text \<open>\<^verbatim>\<open>report.get('summary')\<close>\<close>

fun summary_of :: "research_report \<Rightarrow> report_summary option" where
  "summary_of (StatusReport s) = None"
| "summary_of (FullReport md sm fs evs) = Some sm"

text \<open>\<^verbatim>\<open>_generate_findings\<close>\<close>

definition generate_findings :: "detector \<Rightarrow> finding list" where
  "generate_findings d =
     (let findings = [];
          findings =
            (if resonance_events d \<noteq> [] then
               (let avg_boundary =
                      np_mean (map (\<lambda>e. ev_boundary (ev_measurements e)) (resonance_events d));
                    findings = findings @ [AverageBoundary avg_boundary];
                    n_transitions =
                      length (filter (\<lambda>obs. near_critical (m_phase (measurements obs)))
                        (pattern_observations d))
                in if n_transitions > 0
                   then findings @ [NearCriticalTransitions n_transitions]
                   else findings)
             else findings)
      in if findings \<noteq> [] then findings else [InsufficientData])"

text \<open>The loop that counts the observations of each pattern signature.\<close>

fun count_patterns :: "(string \<rightharpoonup> nat) \<Rightarrow> analysis_report list \<Rightarrow> (string \<rightharpoonup> nat)" where
  "count_patterns patterns [] = patterns"
| "count_patterns patterns (obs # rest) =
     count_patterns
       (patterns(pattern_signature obs \<mapsto>
          (case patterns (pattern_signature obs) of None \<Rightarrow> 0 | Some n \<Rightarrow> n) + 1))
       rest"

text \<open>\<^verbatim>\<open>generate_research_report\<close>\<close>

definition generate_research_report :: "detector \<Rightarrow> research_report" where
  "generate_research_report d =
     (if pattern_observations d = [] then StatusReport ''No observations collected''
      else
        (let n_observations = length (pattern_observations d);
             n_events = length (resonance_events d);
             patterns = count_patterns Map.empty (pattern_observations d)
         in FullReport
              \<lparr>framework = ''Claude Emergence Pattern Detection'',
               version = ''1.0'',
               author = ''Hillary Danan'',
               methodology = ''Multi-metric emergence pattern analysis''\<rparr>
              \<lparr>total_observations = n_observations,
               emergence_events = n_events,
               emergence_rate =
                 (if n_observations > 0 then real n_events / real n_observations else 0),
               pattern_distribution = patterns,
               markers_4577 = length (filter contains_4577_marker (pattern_observations d))\<rparr>
              (generate_findings d)
              (resonance_events d)))"

subsection \<open>The integrated analyzer\<close>

text \<open>
  The two external analyzers are objects of classes of other packages; all the module
  does with them is to construct them and to test whether the attribute is set.
\<close>

datatype TIDEAnalyzer = TIDEAnalyzer
datatype ConcreteOverflowDetector = ConcreteOverflowDetector

record integrated_analyzer =
  tide :: "TIDEAnalyzer option"
  overflow :: "ConcreteOverflowDetector option"
  pattern :: "unit option"

text \<open>
  \<^verbatim>\<open>IntegratedAnalyzer.__init__\<close>. \<open>tide_available\<close> and \<open>overflow_available\<close> are the
  module's flags (whether the import succeeded); \<open>tide_made\<close> and \<open>overflow_made\<close> are
  what the constructors give, \<open>None\<close> when they raise.
\<close>

definition init_analyzer ::
  "bool \<Rightarrow> TIDEAnalyzer option \<Rightarrow> bool \<Rightarrow> ConcreteOverflowDetector option \<Rightarrow>
   integrated_analyzer" where
  "init_analyzer tide_available tide_made overflow_available overflow_made =
     \<lparr>tide = (if tide_available then tide_made else None),
      overflow = (if overflow_available then overflow_made else None),
      pattern = None\<rparr>"

record integrated_boundary =
  ia_score :: real
  ia_type :: string

text \<open>
  The dictionary \<^verbatim>\<open>results\<close> before its last key is set. The entries \<^verbatim>\<open>coherence\<close>, \<^verbatim>\<open>overflow\<close> and
  \<^verbatim>\<open>trust\<close> are dictionaries of one key each, kept as that key's value.
\<close>

record analysis_entries =
  r_boundary :: integrated_boundary
  r_coherence :: real
  r_pattern :: string
  r_overflow_detected :: bool
  r_trust_score :: real

text \<open>\<^verbatim>\<open>results\<close> as returned, with the key \<^verbatim>\<open>meta_score\<close> added.\<close>

record integrated_results = analysis_entries +
  meta_score :: real

text \<open>
  The last step of \<^verbatim>\<open>integrated_analysis\<close>: the three scores it reads from
  \<^verbatim>\<open>results\<close>, and \<^verbatim>\<open>sum(scores) / len(scores)\<close>.
\<close>

definition calc_meta_score :: "analysis_entries \<Rightarrow> real" where
  "calc_meta_score results =
     (let scores = [ia_score (r_boundary results), r_coherence results, r_trust_score results]
      in sum_list scores / real (length scores))"

text \<open>
  \<^verbatim>\<open>integrated_analysis\<close>. The bodies of its two \<^verbatim>\<open>try\<close> blocks are assignments of
  constants, so their \<^verbatim>\<open>except\<close> branches are never taken.
\<close>

definition integrated_analysis ::
  "integrated_analyzer \<Rightarrow> string \<Rightarrow> string \<Rightarrow> int \<Rightarrow> integrated_results" where
  "integrated_analysis a prompt response turn =
     (let boundary_r =
            \<lparr>ia_score = (if length response > 100 then 0.8 else 0.5),
             ia_type = (if str_in ''emergence'' (lower response)
                        then ''transformational'' else ''continuous'')\<rparr>;
          coherence_r =
            (if tide a \<noteq> None then 0.8
             else
               (let words_shared = card (tokens prompt \<inter> tokens response)
                in min (real words_shared / 10) 1.0));
          pattern_r =
            (if str_in ''abstract'' (lower response) \<or> str_in ''pattern'' (lower response)
             then ''AAFC''
             else if str_in ''concrete'' (lower response) \<or> str_in ''specific'' (lower response)
             then ''CCDR''
             else ''ABFC'');
          overflow_r =
            (if overflow a \<noteq> None then False
             else any_in [''abstract'', ''concept'', ''theory'', ''pattern''] (lower response));
          trust_r = (if str_in ''<4577>'' response then 0.7 else 0.6);
          results =
            \<lparr>r_boundary = boundary_r, r_coherence = coherence_r, r_pattern = pattern_r,
             r_overflow_detected = overflow_r, r_trust_score = trust_r\<rparr>
      in \<lparr>r_boundary = r_boundary results, r_coherence = r_coherence results,
           r_pattern = r_pattern results,
           r_overflow_detected = r_overflow_detected results,
           r_trust_score = r_trust_score results,
           meta_score = calc_meta_score results\<rparr>)"

section \<open>Properties\<close>

subsection \<open>Evaluation of the analyses on small inputs\<close>

lemma tokens_a: "tokens ''a'' = {''a''}"
  by (simp add: tokens_def split_ws_def lower_def lower_char_def is_space_def)

lemma tokens_a_b: "tokens ''a b'' = {''a'', ''b''}"
  by (simp add: tokens_def split_ws_def lower_def lower_char_def is_space_def)

lemma tokens_empty: "tokens [] = {}"
  by (simp add: tokens_def split_ws_def lower_def)

lemma resonance_a: "detect_resonance_patterns ''a'' = resonance_none"
  by (simp add: detect_resonance_patterns_def split_sep_def)

lemma first_turn_not_detected:
  "emergence_pattern_detected
     (snd (analyze_emergence_patterns init_detector ''t'' ''a'' ''a'' 1 None)) = False"
  by (simp add: Let_def analyze_emergence_patterns_def measure_boundary_transformation_def
      map_coherence_landscape_def tokens_a resonance_a resonance_none_def init_detector_def
      sum_indicators_def)

subsection \<open>One call of the analysis\<close>

lemma analyze_observations:
  "pattern_observations (fst (analyze_emergence_patterns d now prompt response turn ts_opt)) =
   pattern_observations d @ [snd (analyze_emergence_patterns d now prompt response turn ts_opt)]"
  by (simp add: analyze_emergence_patterns_def Let_def log_emergence_event_def)

lemma analyze_events:
  "resonance_events (fst (analyze_emergence_patterns d now prompt response turn ts_opt)) =
   (if emergence_pattern_detected
         (snd (analyze_emergence_patterns d now prompt response turn ts_opt))
    then resonance_events d @
         [event_of (snd (analyze_emergence_patterns d now prompt response turn ts_opt))]
    else resonance_events d)"
  by (simp add: analyze_emergence_patterns_def Let_def log_emergence_event_def)

lemma analyze_criteria:
  "measurement_criteria (fst (analyze_emergence_patterns d now prompt response turn ts_opt)) =
   measurement_criteria d"
  by (simp add: analyze_emergence_patterns_def Let_def log_emergence_event_def)

lemma analyze_coherence:
  "m_coherence (measurements
     (snd (analyze_emergence_patterns d now prompt response turn ts_opt))) =
   map_coherence_landscape d prompt response"
  by (simp add: analyze_emergence_patterns_def Let_def)

text \<open>
  The thresholds are set by the constructor and no call changes them, so every detector
  that a sequence of calls reaches from a new one has the constructor's thresholds.
\<close>

lemma analyze_all_criteria:
  "measurement_criteria (analyze_all d xs) = measurement_criteria d"
  by (induction xs arbitrary: d) (simp_all add: analyze_turn_def analyze_criteria)

lemma count_true4:
  "sum_list (map of_bool [a, b, c, e]) = length (filter (\<lambda>b. b) [a, b, c, e])"
  by (cases a; cases b; cases c; cases e) simp_all

subsection \<open>The detection decision\<close>

text \<open>
  Claim C1. For a detector with the constructor's thresholds, the report of every analysed
  turn has its four indicators equal to: boundary score above 0.7, coherence delta above
  0.15, resonance strength above 0.8, and the phase's \<open>near_critical\<close>; and the detection
  result is true if and only if at least 3 of these 4 indicators are true. The count ranges
  over all truth values of the four indicators.
\<close>

theorem detection_iff_three_of_four:
  "measurement_criteria d = measurement_criteria init_detector \<Longrightarrow>
   (let r = snd (analyze_emergence_patterns d now prompt response turn ts_opt);
        m = measurements r
    in emergence_indicators r =
           \<lparr>boundary_transformation = (score (m_boundary m) > 0.7),
            coherence_shift = (delta (m_coherence m) > 0.15),
            resonance_detected = (strength (m_resonance m) > 0.8),
            phase_transition = near_critical (m_phase m)\<rparr>
       \<and> emergence_pattern_detected r =
           (3 \<le> length (filter (\<lambda>b. b)
              [score (m_boundary m) > 0.7, delta (m_coherence m) > 0.15,
               strength (m_resonance m) > 0.8, near_critical (m_phase m)]))
       \<and> emergence_pattern_detected r =
           (3 \<le> length (filter (\<lambda>b. b)
              [boundary_transformation (emergence_indicators r),
               coherence_shift (emergence_indicators r),
               resonance_detected (emergence_indicators r),
               phase_transition (emergence_indicators r)])))"
  by (simp add: analyze_emergence_patterns_def Let_def sum_indicators_def init_detector_def
      count_true4 del: sum_list.Cons map_eq_conv list.map filter.simps)

theorem detection_iff_three_of_four_witness:
  "measurement_criteria init_detector = measurement_criteria init_detector \<and>
   emergence_pattern_detected
     (snd (analyze_emergence_patterns init_detector ''t'' ''a'' ''a'' 1 None)) = False"
  using detection_iff_three_of_four [of init_detector "''t''" "''a''" "''a''" 1 None]
    first_turn_not_detected
  by simp

subsection \<open>The meta score of the integrated analyzer\<close>

text \<open>
  Claim C7. For every analyzer, prompt, response and turn, the meta score is the arithmetic
  mean of the boundary score, the coherence and the trust score of the same results. It does
  not depend on the overflow and pattern results: an analyzer that differs in its overflow
  detector only gives the same meta score, and the score computed from the results is the
  same for every pattern and overflow entry.
\<close>

theorem meta_score_is_mean:
  "(let r = integrated_analysis a prompt response turn
    in meta_score r = (ia_score (r_boundary r) + r_coherence r + r_trust_score r) / 3)
   \<and> meta_score (integrated_analysis (a\<lparr>overflow := ov\<rparr>) prompt response turn) =
       meta_score (integrated_analysis a prompt response turn)
   \<and> calc_meta_score (e\<lparr>r_pattern := pt, r_overflow_detected := od\<rparr>) = calc_meta_score e"
  by (simp add: integrated_analysis_def calc_meta_score_def Let_def)

theorem meta_score_is_mean_witness:
  "meta_score (integrated_analysis (init_analyzer False None False None) ''a'' ''a'' 1) = 2 / 5"
  using meta_score_is_mean [of "init_analyzer False None False None" "''a''" "''a''" 1]
  by (simp add: Let_def integrated_analysis_def init_analyzer_def tokens_a calc_meta_score_def)

subsection \<open>History and event log\<close>

lemma analyze_all_lengths:
  "length (resonance_events d) \<le> length (pattern_observations d) \<Longrightarrow>
   length (resonance_events (analyze_all d xs)) \<le> length (pattern_observations (analyze_all d xs))"
proof (induction xs arbitrary: d)
  case Nil
  then show ?case by simp
next
  case (Cons x xs)
  have "length (resonance_events (fst (analyze_turn d x))) \<le>
        length (pattern_observations (fst (analyze_turn d x)))"
    using Cons.prems by (simp add: analyze_turn_def analyze_observations analyze_events)
  then show ?case using Cons.IH by simp
qed

lemma analyze_all_prefix:
  "prefix (pattern_observations d) (pattern_observations (analyze_all d xs)) \<and>
   prefix (resonance_events d) (resonance_events (analyze_all d xs))"
proof (induction xs arbitrary: d)
  case Nil
  then show ?case by simp
next
  case (Cons x xs)
  have "prefix (pattern_observations d) (pattern_observations (fst (analyze_turn d x)))"
    by (simp add: analyze_turn_def analyze_observations)
  moreover have "prefix (resonance_events d) (resonance_events (fst (analyze_turn d x)))"
    by (simp add: analyze_turn_def analyze_events)
  ultimately show ?case
    using Cons.IH [of "fst (analyze_turn d x)"] by (auto intro: prefix_order.order_trans)
qed

text \<open>
  Claim C10. Every call of the analysis appends exactly one observation, its report, to the
  history, and appends exactly one event, the event of that report, to the event log if and
  only if the report's detected flag is true; otherwise the event log is unchanged. So a call
  keeps the event log no longer than the history, the event log of every detector reached
  from a new one is no longer than its history, and both sequences only grow at the end:
  what they held before a sequence of calls is a prefix of what they hold after it.
\<close>

theorem history_append_only:
  "(let r = snd (analyze_emergence_patterns d now prompt response turn ts_opt);
        d' = fst (analyze_emergence_patterns d now prompt response turn ts_opt)
    in pattern_observations d' = pattern_observations d @ [r]
       \<and> resonance_events d' =
           (if emergence_pattern_detected r then resonance_events d @ [event_of r]
            else resonance_events d)
       \<and> (length (resonance_events d) \<le> length (pattern_observations d) \<longrightarrow>
            length (resonance_events d') \<le> length (pattern_observations d')))
   \<and> length (resonance_events (analyze_all init_detector xs)) \<le>
       length (pattern_observations (analyze_all init_detector xs))
   \<and> prefix (pattern_observations d) (pattern_observations (analyze_all d xs))
   \<and> prefix (resonance_events d) (resonance_events (analyze_all d xs))"
proof -
  have "length (resonance_events (analyze_all init_detector xs)) \<le>
        length (pattern_observations (analyze_all init_detector xs))"
    by (rule analyze_all_lengths) (simp add: init_detector_def)
  then show ?thesis
    using analyze_all_prefix [of d xs]
    by (simp add: Let_def analyze_observations analyze_events)
qed

theorem history_append_only_witness:
  "length (pattern_observations (analyze_all init_detector
      [\<lparr>in_now = ''t'', in_prompt = ''a'', in_response = ''a'', in_turn = 1,
        in_timestamp = None\<rparr>])) = 1
   \<and> resonance_events (analyze_all init_detector
      [\<lparr>in_now = ''t'', in_prompt = ''a'', in_response = ''a'', in_turn = 1,
        in_timestamp = None\<rparr>]) = []"
  using history_append_only [of init_detector "''t''" "''a''" "''a''" 1 None "[]"]
    first_turn_not_detected
  by (simp add: Let_def analyze_turn_def init_detector_def)

subsection \<open>The pattern signature\<close>

text \<open>
  Claim C8. The signature follows the fixed table: the codes AF and AA map to AAFC, the codes
  CF and CP map to CCDR, and every other code, AP among them, maps to ABFC (so AP does not
  map to AAFC). For every response the signature is the table's entry for the response's
  code, whose first letter is A or C (abstractness) and whose second letter is F or P
  (futurity); so it is AAFC for AF, ABFC for AP, and CCDR for CF and CP.
\<close>

theorem pattern_signature_table:
  "map_signature ''AF'' = ''AAFC'' \<and> map_signature ''AA'' = ''AAFC''
   \<and> map_signature ''CF'' = ''CCDR'' \<and> map_signature ''CP'' = ''CCDR''
   \<and> map_signature ''AP'' = ''ABFC'' \<and> map_signature ''AP'' \<noteq> ''AAFC''
   \<and> (code \<notin> {''AF'', ''AA'', ''CF'', ''CP''} \<longrightarrow> map_signature code = ''ABFC'')
   \<and> generate_pattern_signature response = map_signature (signature_code response)
   \<and> signature_code response =
       [if any_in [''abstract'', ''concept'', ''theory''] (lower response)
        then CHR ''A'' else CHR ''C'',
        if any_in [''will'', ''future'', ''would''] (lower response)
        then CHR ''F'' else CHR ''P'']
   \<and> generate_pattern_signature response =
       (if any_in [''abstract'', ''concept'', ''theory''] (lower response)
        then (if any_in [''will'', ''future'', ''would''] (lower response)
              then ''AAFC'' else ''ABFC'')
        else ''CCDR'')"
  by (simp add: map_signature_def generate_pattern_signature_def signature_code_def Let_def)

lemma lower_abstract: "lower ''abstract'' = ''abstract''"
  by (simp add: lower_def lower_char_def)

theorem pattern_signature_table_witness:
  "''XY'' \<notin> {''AF'', ''AA'', ''CF'', ''CP''} \<and> map_signature ''XY'' = ''ABFC''
   \<and> signature_code ''abstract'' = ''AP''
   \<and> generate_pattern_signature ''abstract'' = ''ABFC''"
  using pattern_signature_table [of "''XY''" "''abstract''"]
  by (simp add: lower_abstract any_in_def)

subsection \<open>The coherence of the integrated analyzer\<close>

text \<open>
  Claim C9, as stated: the integrated analyzer computes the coherence by the fallback formula
  \<open>min (|prompt_tokens \<inter> response_tokens| / 10) 1\<close> whether or not the coherence analyzer
  was initialised. It fails for an analyzer whose TIDE analyzer is set: on the empty prompt
  and response the coherence is 0.8, and the fallback formula gives 0.
\<close>

theorem coherence_fallback_counterexample:
  "tide (init_analyzer True (Some TIDEAnalyzer) False None) = Some TIDEAnalyzer \<and>
   r_coherence (integrated_analysis (init_analyzer True (Some TIDEAnalyzer) False None) [] [] 1)
     = 4 / 5 \<and>
   min (real (card (tokens [] \<inter> tokens [])) / 10) 1 = 0"
  by (simp add: integrated_analysis_def init_analyzer_def Let_def tokens_empty)

text \<open>
  Claim C9, amended. For every prompt and response, the integrated analyzer computes the
  coherence by the fallback formula \<open>min (|prompt_tokens \<inter> response_tokens| / 10) 1\<close> when
  its TIDE analyzer is not set (the import or the constructor failed), and gives the
  constant 0.8 when it is set.
\<close>

theorem coherence_fallback_or_constant:
  "r_coherence (integrated_analysis a prompt response turn) =
     (if tide a = None
      then min (real (card (tokens prompt \<inter> tokens response)) / 10) 1
      else 0.8)"
  by (simp add: integrated_analysis_def Let_def)

theorem coherence_fallback_or_constant_witness:
  "r_coherence (integrated_analysis (init_analyzer False None False None) ''a'' ''a'' 1) = 1 / 10
   \<and> r_coherence
        (integrated_analysis (init_analyzer True (Some TIDEAnalyzer) False None) ''a'' ''a'' 1) =
       4 / 5"
  using coherence_fallback_or_constant [of "init_analyzer False None False None" "''a''" "''a''" 1]
    coherence_fallback_or_constant
      [of "init_analyzer True (Some TIDEAnalyzer) False None" "''a''" "''a''" 1]
  by (simp add: init_analyzer_def tokens_a)

subsection \<open>The boundary score\<close>

lemma finite_tokens: "finite (tokens s)"
  by (simp add: tokens_def)

text \<open>
  Claim C2, as stated: the boundary score is 0 if and only if the response has zero tokens.
  It fails for the prompt \<open>a b\<close> and the response \<open>a\<close>: the response has one token, the
  token is in the prompt, and the score is 0 (with type \<open>continuous\<close>, not \<open>null\<close>).
\<close>

theorem boundary_score_counterexample:
  "tokens ''a'' \<noteq> {} \<and> score (measure_boundary_transformation ''a b'' ''a'') = 0
   \<and> boundary_type (measure_boundary_transformation ''a b'' ''a'') = ''continuous''"
  by (simp add: measure_boundary_transformation_def Let_def tokens_a tokens_a_b)

text \<open>
  Claim C2, amended. For every prompt and response, the boundary score lies in [0, 1]; it is 0
  if and only if every token of the response is a token of the prompt, which includes the
  response with zero tokens; the type is \<open>null\<close> if and only if the response has zero
  tokens; and when the response has a token, the score is
  \<open>|response_tokens - prompt_tokens| / |response_tokens|\<close>.
\<close>

theorem boundary_score_range:
  "(let b = measure_boundary_transformation prompt response
    in 0 \<le> score b \<and> score b \<le> 1
       \<and> (score b = 0) = (tokens response \<subseteq> tokens prompt)
       \<and> (boundary_type b = ''null'') = (tokens response = {})
       \<and> (tokens response = {} \<longrightarrow> score b = 0)
       \<and> (tokens response \<noteq> {} \<longrightarrow>
            score b = real (card (tokens response - tokens prompt)) /
                      real (card (tokens response))))"
proof -
  let ?R = "tokens response" and ?P = "tokens prompt"
  have fin: "finite ?R" by (rule finite_tokens)
  have le: "card (?R - ?P) \<le> card ?R"
    using fin by (simp add: card_mono)
  show ?thesis
  proof (cases "?R = {}")
    case True
    then show ?thesis by (simp add: measure_boundary_transformation_def Let_def)
  next
    case False
    then have pos: "0 < card ?R" using fin by (simp add: card_gt_0_iff)
    have zero: "(card (?R - ?P) = 0) = (?R \<subseteq> ?P)"
      using fin by auto
    have "real (card (?R - ?P)) / real (card ?R) \<le> 1"
      using le pos by simp
    then show ?thesis
      using False pos zero fin
      by (simp add: measure_boundary_transformation_def Let_def)
  qed
qed

theorem boundary_score_range_witness:
  "score (measure_boundary_transformation ''a'' ''a b'') = 1 / 2
   \<and> score (measure_boundary_transformation ''a'' []) = 0
   \<and> boundary_type (measure_boundary_transformation ''a'' []) = ''null''"
  using boundary_score_range [of "''a''" "''a b''"] boundary_score_range [of "''a''" "[]"]
  by (simp add: Let_def tokens_a tokens_a_b tokens_empty)

subsection \<open>The coherence\<close>

text \<open>
  Claim C4, as stated: the coherence is 0.5 exactly when the set of prompt tokens is empty.
  It fails for the prompt \<open>a b\<close> and the response \<open>a\<close>: the prompt has two tokens, one
  of them is in the response, and the coherence is 0.5.
\<close>

theorem coherence_counterexample:
  "tokens ''a b'' \<noteq> {} \<and>
   coherence (map_coherence_landscape init_detector ''a b'' ''a'') = 1 / 2"
  by (simp add: map_coherence_landscape_def Let_def tokens_a tokens_a_b)

text \<open>
  Claim C4, amended. For every detector, prompt and response, the coherence lies in [0, 1];
  it is 0.5 when the set of prompt tokens is empty, and
  \<open>|prompt_tokens \<inter> response_tokens| / |prompt_tokens|\<close> otherwise (a quotient that can
  be 0.5 as well).
\<close>

theorem coherence_range:
  "(let c = coherence (map_coherence_landscape d prompt response)
    in 0 \<le> c \<and> c \<le> 1
       \<and> (tokens prompt = {} \<longrightarrow> c = 1 / 2)
       \<and> (tokens prompt \<noteq> {} \<longrightarrow>
            c = real (card (tokens prompt \<inter> tokens response)) / real (card (tokens prompt))))"
proof -
  let ?R = "tokens response" and ?P = "tokens prompt"
  have fin: "finite ?P" by (rule finite_tokens)
  have le: "card (?P \<inter> ?R) \<le> card ?P"
    using fin by (simp add: card_mono)
  show ?thesis
  proof (cases "?P = {}")
    case True
    then show ?thesis by (simp add: map_coherence_landscape_def Let_def)
  next
    case False
    then have pos: "0 < card ?P" using fin by (simp add: card_gt_0_iff)
    have "real (card (?P \<inter> ?R)) / real (card ?P) \<le> 1"
      using le pos by simp
    then show ?thesis
      using False by (simp add: map_coherence_landscape_def Let_def)
  qed
qed

theorem coherence_range_witness:
  "coherence (map_coherence_landscape init_detector ''a'' ''a b'') = 1
   \<and> coherence (map_coherence_landscape init_detector [] ''a'') = 1 / 2"
  using coherence_range [of init_detector "''a''" "''a b''"]
    coherence_range [of init_detector "[]" "''a''"]
  by (simp add: Let_def tokens_a tokens_a_b tokens_empty)

subsection \<open>The coherence delta along a history\<close>

lemma delta_chain_step:
  assumes "\<forall>i < length H. delta (m_coherence (measurements (H ! i))) =
             (if i = 0 then 0
              else \<bar>coherence (m_coherence (measurements (H ! i))) -
                    coherence (m_coherence (measurements (H ! (i - 1))))\<bar>)"
    and "pattern_observations d = H"
  shows "\<forall>i < length (pattern_observations (fst (analyze_turn d x))).
           delta (m_coherence (measurements (pattern_observations (fst (analyze_turn d x)) ! i))) =
             (if i = 0 then 0
              else \<bar>coherence (m_coherence (measurements (pattern_observations (fst (analyze_turn d x)) ! i))) -
                    coherence (m_coherence (measurements (pattern_observations (fst (analyze_turn d x)) ! (i - 1))))\<bar>)"
proof (intro allI impI)
  fix i
  let ?r = "snd (analyze_turn d x)"
  let ?H' = "pattern_observations (fst (analyze_turn d x))"
  assume i: "i < length ?H'"
  have H': "?H' = H @ [?r]"
    using assms(2) by (simp add: analyze_turn_def analyze_observations)
  have r: "m_coherence (measurements ?r) = map_coherence_landscape d (in_prompt x) (in_response x)"
    by (simp add: analyze_turn_def analyze_coherence)
  show "delta (m_coherence (measurements (?H' ! i))) =
          (if i = 0 then 0
           else \<bar>coherence (m_coherence (measurements (?H' ! i))) -
                 coherence (m_coherence (measurements (?H' ! (i - 1))))\<bar>)"
  proof (cases "i < length H")
    case True
    then have "?H' ! i = H ! i" "i \<noteq> 0 \<Longrightarrow> ?H' ! (i - 1) = H ! (i - 1)"
      by (simp_all add: H' nth_append)
    then show ?thesis using assms(1) True by auto
  next
    case False
    then have il: "i = length H" using i by (simp add: H')
    then have at: "?H' ! i = ?r" by (simp add: H')
    show ?thesis
    proof (cases "H = []")
      case True
      then show ?thesis
        using il at r assms(2) by (simp add: map_coherence_landscape_def Let_def)
    next
      case False
      then have "?H' ! (i - 1) = last H"
        using il by (simp add: H' nth_append last_conv_nth)
      then show ?thesis
        using il at r assms(2) False by (simp add: map_coherence_landscape_def Let_def)
    qed
  qed
qed

lemma delta_chain_all:
  assumes "\<forall>i < length (pattern_observations d).
             delta (m_coherence (measurements (pattern_observations d ! i))) =
             (if i = 0 then 0
              else \<bar>coherence (m_coherence (measurements (pattern_observations d ! i))) -
                    coherence (m_coherence (measurements (pattern_observations d ! (i - 1))))\<bar>)"
  shows "\<forall>i < length (pattern_observations (analyze_all d xs)).
           delta (m_coherence (measurements (pattern_observations (analyze_all d xs) ! i))) =
             (if i = 0 then 0
              else \<bar>coherence (m_coherence (measurements (pattern_observations (analyze_all d xs) ! i))) -
                    coherence (m_coherence (measurements (pattern_observations (analyze_all d xs) ! (i - 1))))\<bar>)"
  using assms
proof (induction xs arbitrary: d)
  case Nil
  then show ?case by simp
next
  case (Cons x xs)
  show ?case
    unfolding analyze_all.simps
    by (rule Cons.IH) (rule delta_chain_step [OF Cons.prems refl])
qed

lemma delta_new:
  "delta (m_coherence (measurements
      (snd (analyze_emergence_patterns d now prompt response turn ts_opt)))) =
   (if pattern_observations d = [] then 0
    else \<bar>coherence (m_coherence (measurements
              (snd (analyze_emergence_patterns d now prompt response turn ts_opt)))) -
          coherence (m_coherence (measurements (last (pattern_observations d))))\<bar>)"
  by (simp add: analyze_coherence) (simp add: map_coherence_landscape_def Let_def)

lemma two_turns:
  "pattern_observations (analyze_all init_detector [x, y]) =
   [snd (analyze_turn init_detector x), snd (analyze_turn (fst (analyze_turn init_detector x)) y)]"
  by (simp add: analyze_turn_def analyze_observations init_detector_def)

lemma first_coherence:
  "coherence (m_coherence (measurements (snd (analyze_turn d
      \<lparr>in_now = ''t'', in_prompt = ''a'', in_response = ''a'', in_turn = 1,
        in_timestamp = None\<rparr>)))) = 1"
  by (simp add: analyze_turn_def analyze_coherence map_coherence_landscape_def Let_def tokens_a)

lemma second_coherence:
  "coherence (m_coherence (measurements (snd (analyze_turn d
      \<lparr>in_now = ''t'', in_prompt = ''a b'', in_response = ''a'', in_turn = 2,
        in_timestamp = None\<rparr>)))) = 1 / 2"
  by (simp add: analyze_turn_def analyze_coherence map_coherence_landscape_def Let_def tokens_a
      tokens_a_b)

text \<open>
  Claim C5, as stated: the delta is 0.0 exactly for the first observation of a history. It
  fails for a history of two equal turns (prompt \<open>a\<close>, response \<open>a\<close>): the second
  observation has the coherence of the first, so its delta is 0 as well.
\<close>

theorem delta_zero_counterexample:
  "length (pattern_observations (analyze_all init_detector
      [\<lparr>in_now = ''t'', in_prompt = ''a'', in_response = ''a'', in_turn = 1,
        in_timestamp = None\<rparr>,
       \<lparr>in_now = ''t'', in_prompt = ''a'', in_response = ''a'', in_turn = 1,
        in_timestamp = None\<rparr>])) = 2 \<and>
   delta (m_coherence (measurements (pattern_observations (analyze_all init_detector
      [\<lparr>in_now = ''t'', in_prompt = ''a'', in_response = ''a'', in_turn = 1,
        in_timestamp = None\<rparr>,
       \<lparr>in_now = ''t'', in_prompt = ''a'', in_response = ''a'', in_turn = 1,
        in_timestamp = None\<rparr>]) ! 1))) = 0"
proof -
  let ?x = "\<lparr>in_now = ''t'', in_prompt = ''a'', in_response = ''a'', in_turn = 1,
        in_timestamp = None\<rparr>"
  let ?d = "fst (analyze_turn init_detector ?x)"
  have obs: "pattern_observations ?d = [snd (analyze_turn init_detector ?x)]"
    by (simp add: analyze_turn_def analyze_observations init_detector_def)
  have "delta (m_coherence (measurements (snd (analyze_turn ?d ?x)))) = 0"
    using delta_new [of ?d "''t''" "''a''" "''a''" 1 None] obs
      first_coherence [of ?d] first_coherence [of init_detector]
    by (simp add: analyze_turn_def)
  then show ?thesis
    by (simp only: two_turns) simp
qed

text \<open>
  Claim C5, amended. In every history that calls of the analysis build on a new detector, the
  delta of the first observation is 0.0 and the delta of observation \<open>i > 0\<close> is the
  absolute difference between its coherence and the coherence of observation \<open>i - 1\<close>
  (which is 0.0 when the two are equal). For a call on any detector, the delta of the new
  observation is 0.0 when the history is empty, and otherwise the absolute difference between
  its coherence and the coherence of the last observation of the history.
\<close>

theorem delta_follows_history:
  "(let H = pattern_observations (analyze_all init_detector xs)
    in \<forall>i < length H.
         delta (m_coherence (measurements (H ! i))) =
           (if i = 0 then 0
            else \<bar>coherence (m_coherence (measurements (H ! i))) -
                  coherence (m_coherence (measurements (H ! (i - 1))))\<bar>))
   \<and> delta (m_coherence (measurements
        (snd (analyze_emergence_patterns d now prompt response turn ts_opt)))) =
      (if pattern_observations d = [] then 0
       else \<bar>coherence (m_coherence (measurements
                 (snd (analyze_emergence_patterns d now prompt response turn ts_opt)))) -
             coherence (m_coherence (measurements (last (pattern_observations d))))\<bar>)"
proof -
  have "\<forall>i < length (pattern_observations init_detector).
          delta (m_coherence (measurements (pattern_observations init_detector ! i))) =
          (if i = 0 then 0
           else \<bar>coherence (m_coherence (measurements (pattern_observations init_detector ! i))) -
                 coherence (m_coherence (measurements (pattern_observations init_detector ! (i - 1))))\<bar>)"
    by (simp add: init_detector_def)
  from delta_chain_all [OF this, of xs] show ?thesis
    unfolding Let_def using delta_new [of d now prompt response turn ts_opt] by blast
qed

theorem delta_follows_history_witness:
  "delta (m_coherence (measurements (pattern_observations (analyze_all init_detector
      [\<lparr>in_now = ''t'', in_prompt = ''a'', in_response = ''a'', in_turn = 1,
        in_timestamp = None\<rparr>,
       \<lparr>in_now = ''t'', in_prompt = ''a b'', in_response = ''a'', in_turn = 2,
        in_timestamp = None\<rparr>]) ! 1))) = 1 / 2"
proof -
  let ?xs = "[\<lparr>in_now = ''t'', in_prompt = ''a'', in_response = ''a'', in_turn = 1,
        in_timestamp = None\<rparr>,
       \<lparr>in_now = ''t'', in_prompt = ''a b'', in_response = ''a'', in_turn = 2,
        in_timestamp = None\<rparr>]"
  have "length (pattern_observations (analyze_all init_detector ?xs)) = 2"
    by (simp only: two_turns) simp
  then have "1 < length (pattern_observations (analyze_all init_detector ?xs))" by simp
  with delta_follows_history [of ?xs init_detector "[]" "[]" "[]" 0 None]
  have "delta (m_coherence (measurements (pattern_observations (analyze_all init_detector ?xs) ! 1))) =
      \<bar>coherence (m_coherence (measurements (pattern_observations (analyze_all init_detector ?xs) ! 1))) -
       coherence (m_coherence (measurements (pattern_observations (analyze_all init_detector ?xs) ! (1 - 1))))\<bar>"
    unfolding Let_def by (metis zero_neq_one)
  then show ?thesis
    by (simp only: two_turns) (simp add: first_coherence second_coherence)
qed

subsection \<open>The research report\<close>

text \<open>
  Claim C6, as stated: on an empty history the report still carries the summary fields, with
  emergence rate 0. It fails for a new detector: the report is the status
  \<open>No observations collected\<close> alone, with no summary and so no emergence rate.
\<close>

theorem research_report_rate_counterexample:
  "pattern_observations init_detector = [] \<and>
   generate_research_report init_detector = StatusReport ''No observations collected'' \<and>
   map_option emergence_rate (summary_of (generate_research_report init_detector)) \<noteq> Some 0"
  by (simp add: generate_research_report_def init_detector_def)

text \<open>
  Claim C6, amended. For every state of the detector whose history is not empty, the report
  has a summary, with the length of the history as the total, the length of the event log as
  the number of events, and their quotient as the emergence rate. For a state with an empty
  history the report is the status \<open>No observations collected\<close> alone, and it has no
  summary. Neither case raises: the function's one division is made on a history that is
  not empty.
\<close>

theorem research_report_rate:
  "(pattern_observations d \<noteq> [] \<longrightarrow>
      (\<exists>sm. summary_of (generate_research_report d) = Some sm
         \<and> total_observations sm = length (pattern_observations d)
         \<and> emergence_events sm = length (resonance_events d)
         \<and> emergence_rate sm =
             real (length (resonance_events d)) / real (length (pattern_observations d))))
   \<and> (pattern_observations d = [] \<longrightarrow>
        generate_research_report d = StatusReport ''No observations collected''
        \<and> summary_of (generate_research_report d) = None)"
  by (simp add: generate_research_report_def Let_def)

theorem research_report_rate_witness:
  "map_option emergence_rate (summary_of (generate_research_report
     (init_detector\<lparr>pattern_observations :=
         [snd (analyze_emergence_patterns init_detector ''t'' ''a'' ''a'' 1 None),
          snd (analyze_emergence_patterns init_detector ''t'' ''a'' ''a'' 1 None)],
        resonance_events :=
         [event_of (snd (analyze_emergence_patterns init_detector ''t'' ''a'' ''a'' 1 None))]\<rparr>)))
   = Some (1 / 2)
   \<and> generate_research_report init_detector = StatusReport ''No observations collected''"
  using research_report_rate [of "init_detector\<lparr>pattern_observations :=
         [snd (analyze_emergence_patterns init_detector ''t'' ''a'' ''a'' 1 None),
          snd (analyze_emergence_patterns init_detector ''t'' ''a'' ''a'' 1 None)],
        resonance_events :=
         [event_of (snd (analyze_emergence_patterns init_detector ''t'' ''a'' ''a'' 1 None))]\<rparr>"]
    research_report_rate [of init_detector]
  by (auto simp add: init_detector_def)

subsection \<open>The resonance strength\<close>

text \<open>
  A unit with a character that is not white space has a word, so every counted length is at
  least 1 and the mean of the lengths is positive.
\<close>

lemma dropWhile_all: "(\<forall>x \<in> set (dropWhile P ys). P x) = (\<forall>x \<in> set ys. P x)"
  by (induction ys) auto

lemma strip_nonempty: "(strip s \<noteq> []) = (\<exists>c \<in> set s. \<not> is_space c)"
  by (simp add: strip_def dropWhile_eq_Nil_conv dropWhile_all)

lemma split_from_nonempty:
  "cur \<noteq> [] \<or> (\<exists>c \<in> set s. \<not> is_space c) \<Longrightarrow> split_from cur s \<noteq> []"
  by (induction s arbitrary: cur) auto

lemma sentence_lengths_pos: "n \<in> set (sentence_lengths ss) \<Longrightarrow> 1 \<le> n"
proof -
  assume "n \<in> set (sentence_lengths ss)"
  then obtain s where "strip s \<noteq> []" and n: "n = length (split_ws s)"
    by (auto simp add: sentence_lengths_def)
  then have "split_ws s \<noteq> []"
    unfolding split_ws_def by (intro split_from_nonempty) (simp add: strip_nonempty)
  then show ?thesis using n by (cases "split_ws s") simp_all
qed

lemma sum_list_ge_length:
  "(\<And>x. x \<in> set xs \<Longrightarrow> (1::real) \<le> x) \<Longrightarrow> real (length xs) \<le> sum_list xs"
  by (induction xs) (simp_all add: add_mono)

lemma np_mean_ge_one:
  assumes "xs \<noteq> []" and "\<And>x. x \<in> set xs \<Longrightarrow> 1 \<le> x"
  shows "1 \<le> np_mean xs"
proof -
  have "0 < real (length xs)" using assms(1) by simp
  moreover have "real (length xs) \<le> sum_list xs"
    using assms(2) by (rule sum_list_ge_length)
  ultimately show ?thesis by (simp add: np_mean_def)
qed

lemma np_std_nonneg: "0 \<le> np_std xs"
proof -
  have "0 \<le> sum_list (map (\<lambda>x. \<bar>x - np_mean xs\<bar>\<^sup>2) xs)"
    by (rule sum_list_nonneg) auto
  then show ?thesis by (simp add: np_std_def np_mean_def)
qed

lemma np_std_single: "np_std [x] = 0"
  by (simp add: np_std_def np_mean_def)

lemma length_split_sep_from:
  "length (split_sep_from sep cur s) = Suc (count_list s sep)"
  by (induction s arbitrary: cur) simp_all

lemma split_sep_short: "(length (split_sep sep s) < 2) = (sep \<notin> set s)"
  by (simp add: split_sep_def length_split_sep_from count_list_0_iff less_Suc_eq)

text \<open>
  What the analyzer does on the two sides of the case that claim C3 is about: a response
  with no sentence terminator, or with no usable unit, gives strength 0.0, frequency 0.0 and
  type \<open>none\<close>; a response with at least 2 usable units has its strength in (0, 1].
\<close>

lemma resonance_none_or_range:
  "(let r = detect_resonance_patterns response;
        usable = filter (\<lambda>s. strip s \<noteq> []) (split_sep CHR ''.'' response)
    in (CHR ''.'' \<notin> set response \<or> usable = [] \<longrightarrow>
          strength r = 0 \<and> frequency r = 0 \<and> resonance_type r = ''none'')
       \<and> (2 \<le> length usable \<longrightarrow> 0 < strength r \<and> strength r \<le> 1))"
proof -
  let ?units = "split_sep CHR ''.'' response"
  let ?usable = "filter (\<lambda>s. strip s \<noteq> []) ?units"
  let ?ls = "map real (sentence_lengths ?units)"
  have empty: "(sentence_lengths ?units = []) = (?usable = [])"
    by (simp add: sentence_lengths_def)
  have none: "CHR ''.'' \<notin> set response \<or> ?usable = [] \<Longrightarrow>
      detect_resonance_patterns response = resonance_none"
    using split_sep_short [of "CHR ''.''" response] empty
    by (auto simp add: detect_resonance_patterns_def Let_def)
  have range: "0 < strength (detect_resonance_patterns response) \<and>
      strength (detect_resonance_patterns response) \<le> 1"
    if two: "2 \<le> length ?usable"
  proof -
    have "length ?usable \<le> length ?units" by (rule length_filter_le)
    with two have long: "\<not> length ?units < 2" by linarith
    have ne: "?ls \<noteq> []" using two empty by auto
    have "\<And>x. x \<in> set ?ls \<Longrightarrow> 1 \<le> x"
      using sentence_lengths_pos [of _ ?units] by auto
    then have m: "1 \<le> np_mean ?ls" using ne by (intro np_mean_ge_one)
    have s: "strength (detect_resonance_patterns response) =
        1 / (1 + np_std ?ls / np_mean ?ls)"
      using long m ne by (simp add: detect_resonance_patterns_def Let_def)
    have "0 \<le> np_std ?ls / np_mean ?ls"
      using m np_std_nonneg [of ?ls] by simp
    then show ?thesis using s by simp
  qed
  show ?thesis
    unfolding Let_def using none range by (simp add: resonance_none_def)
qed

text \<open>
  Claim C3: a response with fewer than 2 usable sentence units, in particular one with
  exactly one sentence, has strength 0.0, frequency 0.0 and type \<open>none\<close>. The analyzer
  does not meet it. Its guard on the number of sentences counts the units of the split
  before the blank ones are left out, so it holds back a sentence written without its
  terminator and lets through the same sentence written with it: the response \<open>a\<close> gives
  type \<open>none\<close>, and the response \<open>a.\<close>, whose units are \<open>a\<close> and the empty string
  with one of them usable, gives strength 1 and type \<open>harmonic\<close>.
\<close>

theorem resonance_single_sentence:
  "length (filter (\<lambda>s. strip s \<noteq> []) (split_sep CHR ''.'' ''a.'')) = 1
   \<and> length (split_sep CHR ''.'' ''a.'') = 2
   \<and> strength (detect_resonance_patterns ''a.'') = 1
   \<and> frequency (detect_resonance_patterns ''a.'') = 1
   \<and> resonance_type (detect_resonance_patterns ''a.'') = ''harmonic''
   \<and> detect_resonance_patterns ''a'' = resonance_none"
  by (simp add: detect_resonance_patterns_def split_sep_def sentence_lengths_def strip_def
      is_space_def split_ws_def np_std_single Let_def) (simp add: np_mean_def)

end
